theory Spec2Isabelle
  imports Main
begin

section \<open>JavaScript values\<close>

text \<open>
  An optional, nullable property (\<^verbatim>\<open>x?: string | null\<close>) has three shapes at run time:
  the property is missing, it is \<^verbatim>\<open>null\<close>, or it holds a value.  Strict equality
  \<^verbatim>\<open>===\<close> tells the three apart, which is the equality of this datatype; the operators
  \<^verbatim>\<open>??\<close> and \<^verbatim>\<open>?.\<close> treat the first two alike.
\<close>

datatype 'a js_opt = Undefined | Null | Val 'a

text \<open>A value of type \<^verbatim>\<open>unknown\<close> that came out of \<^verbatim>\<open>JSON.parse\<close>.\<close>

datatype json =
    JNull
  | JBool bool
  | JNum int
  | JStr string
  | JArr "json list"
  | JObj "(string \<times> json) list"

text \<open>
  \<^verbatim>\<open>typeof v === "object"\<close> on a property that may be missing (\<open>None\<close>): true of objects,
  arrays and \<^verbatim>\<open>null\<close>.
\<close>

fun typeof_object :: "json option \<Rightarrow> bool" where
  "typeof_object (Some JNull) = True"
| "typeof_object (Some (JArr xs)) = True"
| "typeof_object (Some (JObj kvs)) = True"
| "typeof_object _ = False"

text \<open>Truthiness of a JSON value (\<^verbatim>\<open>event.args && ...\<close>).\<close>

fun truthy_json :: "json option \<Rightarrow> bool" where
  "truthy_json None = False"
| "truthy_json (Some JNull) = False"
| "truthy_json (Some (JBool b)) = b"
| "truthy_json (Some (JNum n)) = (n \<noteq> 0)"
| "truthy_json (Some (JStr s)) = (s \<noteq> [])"
| "truthy_json (Some (JArr xs)) = True"
| "truthy_json (Some (JObj kvs)) = True"

text \<open>Truthiness of an optional string: only a non-empty string is truthy.\<close>

fun truthy :: "string js_opt \<Rightarrow> bool" where
  "truthy (Val s) = (s \<noteq> [])"
| "truthy _ = False"

text \<open>\<^verbatim>\<open>x ?? d\<close> on an optional string.\<close>

fun nullish_or :: "'a js_opt \<Rightarrow> 'a \<Rightarrow> 'a" where
  "nullish_or (Val s) d = s"
| "nullish_or _ d = d"

text \<open>
  \<^verbatim>\<open>String.prototype.toLowerCase\<close>, on the ASCII letters: a \<open>string\<close> here is a list
  of bytes, and the statuses and severities the program compares against are ASCII words.
\<close>

definition lower_char :: "char \<Rightarrow> char" where
  "lower_char c =
     (let n = (of_char c :: nat) in if 65 \<le> n \<and> n \<le> 90 then char_of (n + 32) else c)"

definition toLowerCase :: "string \<Rightarrow> string" where
  "toLowerCase s = map lower_char s"

text \<open>
  \<^verbatim>\<open>s.split(":", 2)\<close>: the string is cut at every separator and the first two pieces are
  kept, so a third piece is lost rather than glued to the second.
\<close>

fun split_on :: "char \<Rightarrow> string \<Rightarrow> string list" where
  "split_on c [] = [[]]"
| "split_on c (x # xs) =
     (if x = c then [] # split_on c xs
      else (case split_on c xs of [] \<Rightarrow> [[x]] | p # ps \<Rightarrow> (x # p) # ps))"



text \<open>A number in a template literal is written in decimal.\<close>

definition digit :: "nat \<Rightarrow> char" where
  "digit d = char_of (of_char (CHR ''0'') + d)"

fun decimal :: "nat \<Rightarrow> string" where
  "decimal n = (if n < 10 then [digit n] else decimal (n div 10) @ [digit (n mod 10)])"

declare decimal.simps [simp del]

section \<open>Entity model\<close>

record RunMetadata =
  rm_id :: string
  rm_created_at :: "string option"
  rm_event_count :: nat

record Agent =
  ag_id :: string
  ag_label :: string
  ag_first_seen :: string
  ag_last_seen :: string

record Asset =
  as_id :: string
  as_label :: string
  as_url :: string
  as_first_seen :: string
  as_last_seen :: string

record Vulnerability =
  vu_id :: string
  vu_agent_id :: "string js_opt"
  vu_asset_id :: "string js_opt"
  vu_severity :: "string js_opt"
  vu_category :: "string js_opt"
  vu_description :: "string js_opt"
  vu_ts :: string

record Edge =
  ed_id :: string
  ed_source :: string
  ed_target :: string
  ed_relation :: string
  ed_label :: "string js_opt"

record ToolCall =
  tc_id :: string
  tc_ts :: string
  tc_agent_id :: "string js_opt"
  tc_tool :: "string js_opt"
  tc_target :: "string js_opt"
  tc_status :: "string js_opt"
  tc_summary :: "string js_opt"
  tc_args :: json
  tc_result_summary :: "string js_opt"

record Snapshot =
  run_id :: string
  agents :: "Agent list"
  assets :: "Asset list"
  vulnerabilities :: "Vulnerability list"
  edges :: "Edge list"
  tool_calls :: "ToolCall list"
  last_event_ts :: "string js_opt"

text \<open>
  \<^verbatim>\<open>LiveEvent = Record<string, unknown> & { type?: string; ts?: string }\<close>: two typed
  optional properties and any number of untyped ones.
\<close>

record LiveEvent =
  ev_type :: "string option"
  ev_ts :: "string option"
  ev_props :: "string \<rightharpoonup> json"

section \<open>Terminal view: the status filter\<close>

record TerminalFilters =
  agentId :: string
  tool :: string
  onlyErrors :: bool
  onlySuccess :: bool

definition normalizedStatus :: "ToolCall \<Rightarrow> string" where
  "normalizedStatus call = toLowerCase (nullish_or (tc_status call) [])"

definition isError :: "ToolCall \<Rightarrow> bool" where
  "isError call =
     (normalizedStatus call \<noteq> [] \<and> normalizedStatus call \<noteq> ''ok''
      \<and> normalizedStatus call \<noteq> ''success'')"

definition isSuccess :: "ToolCall \<Rightarrow> bool" where
  "isSuccess call = (normalizedStatus call = ''ok'' \<or> normalizedStatus call = ''success'')"

text \<open>The predicate of \<^verbatim>\<open>toolCalls.filter\<close>, with its four early returns in order.\<close>

definition keepCall :: "TerminalFilters \<Rightarrow> ToolCall \<Rightarrow> bool" where
  "keepCall filters call =
     (if agentId filters \<noteq> ''all'' \<and> tc_agent_id call \<noteq> Val (agentId filters) then False
      else if tool filters \<noteq> ''all'' \<and> tc_tool call \<noteq> Val (tool filters) then False
      else if onlyErrors filters \<and> \<not> isError call then False
      else if onlySuccess filters \<and> \<not> isSuccess call then False
      else True)"

definition filteredCalls :: "ToolCall list \<Rightarrow> TerminalFilters \<Rightarrow> ToolCall list" where
  "filteredCalls toolCalls filters = filter (keepCall filters) toolCalls"

section \<open>Graph view: the projection of a snapshot\<close>

text \<open>
  \<^verbatim>\<open>new Map(entries)\<close>: a key keeps the position of its first entry and the value of its
  last one; \<^verbatim>\<open>forEach\<close> visits the entries in that order.
\<close>

fun map_set :: "(string \<times> 'a) list \<Rightarrow> string \<Rightarrow> 'a \<Rightarrow> (string \<times> 'a) list" where
  "map_set [] k v = [(k, v)]"
| "map_set ((k', v') # m) k v = (if k' = k then (k, v) # m else (k', v') # map_set m k v)"

definition new_Map :: "(string \<times> 'a) list \<Rightarrow> (string \<times> 'a) list" where
  "new_Map entries = foldl (\<lambda>m (k, v). map_set m k v) [] entries"

definition map_has :: "(string \<times> 'a) list \<Rightarrow> string \<Rightarrow> bool" where
  "map_has m k = (k \<in> set (map fst m))"

datatype entity_type = EAgent | EAsset | EVuln

record GraphSelection =
  sel_id :: string
  entityType :: entity_type

text \<open>
  The elements handed to the graph library.  A node carries its prefixed id, its label, its
  kind, the severity (vulnerability nodes only) and its class string; the severity score
  only feeds the colour of the node and is left out.
\<close>

record node_data =
  n_id :: string
  n_label :: string
  n_entityType :: entity_type
  n_severity :: "string option"
  n_classes :: string

record edge_data =
  e_id :: string
  e_source :: string
  e_target :: string
  e_label :: string

datatype element = NodeEl node_data | EdgeEl edge_data

definition shouldFadeAgent :: "string \<Rightarrow> string \<Rightarrow> bool" where
  "shouldFadeAgent agentFilter ident = (agentFilter \<noteq> ''all'' \<and> ident \<noteq> agentFilter)"

definition shouldFadeVuln :: "string \<Rightarrow> string js_opt \<Rightarrow> bool" where
  "shouldFadeVuln severityFilter severity =
     (if severityFilter = ''all'' then False
      else (let normalized = (case severity of Val s \<Rightarrow> toLowerCase s | _ \<Rightarrow> ''unknown'')
            in normalized \<noteq> severityFilter))"

definition agent_node :: "string \<Rightarrow> Agent \<Rightarrow> node_data" where
  "agent_node agentFilter agent =
     \<lparr>n_id = ''agent:'' @ ag_id agent, n_label = ag_label agent, n_entityType = EAgent,
      n_severity = None,
      n_classes = ''agent'' @ (if shouldFadeAgent agentFilter (ag_id agent) then '' faded'' else [])\<rparr>"

definition asset_node :: "Asset \<Rightarrow> node_data" where
  "asset_node asset =
     \<lparr>n_id = ''asset:'' @ as_id asset, n_label = as_label asset, n_entityType = EAsset,
      n_severity = None, n_classes = ''asset''\<rparr>"

text \<open>
  The vulnerability node: the severity is lower-cased and defaulted to \<^verbatim>\<open>"low"\<close> first,
  and it is this defaulted string that \<^verbatim>\<open>shouldFadeVuln\<close> receives.
\<close>

definition vuln_node :: "string \<Rightarrow> Vulnerability \<Rightarrow> node_data" where
  "vuln_node severityFilter vuln =
     (let severity = (case vu_severity vuln of Val s \<Rightarrow> toLowerCase s | _ \<Rightarrow> ''low'')
      in \<lparr>n_id = ''vuln:'' @ vu_id vuln, n_label = vu_id vuln, n_entityType = EVuln,
          n_severity = Some severity,
          n_classes = ''vuln'' @ (if shouldFadeVuln severityFilter (Val severity) then '' faded'' else [])\<rparr>)"

text \<open>The three maps of the projection, keyed by raw id.\<close>

definition agentsMap :: "Snapshot \<Rightarrow> (string \<times> Agent) list" where
  "agentsMap snap = new_Map (map (\<lambda>agent. (ag_id agent, agent)) (agents snap))"

definition assetsMap :: "Snapshot \<Rightarrow> (string \<times> Asset) list" where
  "assetsMap snap = new_Map (map (\<lambda>asset. (as_id asset, asset)) (assets snap))"

definition vulnsMap :: "Snapshot \<Rightarrow> (string \<times> Vulnerability) list" where
  "vulnsMap snap = new_Map (map (\<lambda>vuln. (vu_id vuln, vuln)) (vulnerabilities snap))"

definition graph_nodes :: "Snapshot \<Rightarrow> string \<Rightarrow> string \<Rightarrow> node_data list" where
  "graph_nodes snap agentFilter severityFilter =
     map (\<lambda>(k, agent). agent_node agentFilter agent) (agentsMap snap)
     @ map (\<lambda>(k, asset). asset_node asset) (assetsMap snap)
     @ map (\<lambda>(k, vuln). vuln_node severityFilter vuln) (vulnsMap snap)"

text \<open>\<^verbatim>\<open>prefix\<close>, a closure over the three maps of the snapshot.\<close>

definition prefix :: "Snapshot \<Rightarrow> string \<Rightarrow> string" where
  "prefix snap ident =
     (if map_has (agentsMap snap) ident then ''agent:'' @ ident
      else if map_has (vulnsMap snap) ident then ''vuln:'' @ ident
      else if map_has (assetsMap snap) ident then ''asset:'' @ ident
      else ident)"

definition project_edge :: "Snapshot \<Rightarrow> Edge \<Rightarrow> edge_data" where
  "project_edge snap edge =
     \<lparr>e_id = ed_id edge,
      e_source = prefix snap (ed_source edge),
      e_target = prefix snap (ed_target edge),
      e_label = nullish_or (ed_label edge) (ed_relation edge)\<rparr>"

text \<open>\<^verbatim>\<open>.filter((edge) => edge.data.source && edge.data.target)\<close>: both strings non-empty.\<close>

definition edge_kept :: "edge_data \<Rightarrow> bool" where
  "edge_kept e = (e_source e \<noteq> [] \<and> e_target e \<noteq> [])"

definition graph_edges :: "Snapshot \<Rightarrow> edge_data list" where
  "graph_edges snap = filter edge_kept (map (project_edge snap) (edges snap))"

definition GraphView_elements :: "Snapshot option \<Rightarrow> string \<Rightarrow> string \<Rightarrow> element list" where
  "GraphView_elements snapshot agentFilter severityFilter =
     (case snapshot of
        None \<Rightarrow> []
      | Some snap \<Rightarrow>
          map NodeEl (graph_nodes snap agentFilter severityFilter) @ map EdgeEl (graph_edges snap))"

text \<open>
  The highlight effect on the graph instance.  A rendered node has an id and a set of
  classes.  The effect asks the graph library for \<^verbatim>\<open>node[id = "..."]\<close> with the
  highlighted id spliced, unescaped, between the double quotes, and adds the class only
  to a non-empty collection.
\<close>

record cy_node =
  cy_id :: string
  cy_classes :: "string list"

definition removeClass :: "string \<Rightarrow> cy_node \<Rightarrow> cy_node" where
  "removeClass c n = n\<lparr>cy_classes := filter (\<lambda>x. x \<noteq> c) (cy_classes n)\<rparr>"

definition addClass :: "string \<Rightarrow> cy_node \<Rightarrow> cy_node" where
  "addClass c n = (if c \<in> set (cy_classes n) then n else n\<lparr>cy_classes := cy_classes n @ [c]\<rparr>)"

definition dq :: char where
  "dq = CHR 0x22"

definition backslash :: char where
  "backslash = CHR 0x5C"

text \<open>The template literal of the effect: the selector string for a highlighted id.\<close>

definition id_selector :: "string \<Rightarrow> string" where
  "id_selector h = ''node[id = '' @ [dq] @ h @ [dq] @ '']''"

text \<open>
  The selector language belongs to the graph library.  The part of it covered here is
  the lists of id tests \<^verbatim>\<open>node[id = "v1"], node[id = "v2"]\<close>, written exactly so, whose
  values hold neither a double quote nor a backslash: such a list selects the nodes whose
  id is one of its values.  Cut at the double quotes, such a selector is an opening piece,
  then values alternating with separators, then a closing bracket.  On any other selector
  the result is \<open>None\<close>: nothing is said about what the library does with it.
\<close>

fun id_values :: "string list \<Rightarrow> string list option" where
  "id_values [v, closing] =
     (if closing = '']'' \<and> backslash \<notin> set v then Some [v] else None)"
| "id_values (v # sep # rest) =
     (if sep = ''], node[id = '' \<and> backslash \<notin> set v
      then map_option (\<lambda>vs. v # vs) (id_values rest) else None)"
| "id_values _ = None"

definition cy_select :: "string \<Rightarrow> cy_node list \<Rightarrow> cy_node list option" where
  "cy_select selector cy =
     (case split_on dq selector of
        [] \<Rightarrow> None
      | opening # rest \<Rightarrow>
          if opening = ''node[id = ''
          then map_option (\<lambda>vs. filter (\<lambda>n. cy_id n \<in> set vs) cy) (id_values rest)
          else None)"

definition highlight_effect :: "string option \<Rightarrow> cy_node list \<Rightarrow> cy_node list option" where
  "highlight_effect highlightedNodeId cy =
     (let cleared = map (removeClass ''highlighted'') cy
      in case highlightedNodeId of
           None \<Rightarrow> Some cleared
         | Some h \<Rightarrow>
             if h = [] then Some cleared
             else (case cy_select (id_selector h) cleared of
                     None \<Rightarrow> None
                   | Some node \<Rightarrow>
                       if length node > 0
                       then Some (map (\<lambda>n. if n \<in> set node then addClass ''highlighted'' n else n) cleared)
                       else Some cleared))"

text \<open>The graph instance the library builds from the node elements.\<close>

definition cy_of_nodes :: "node_data list \<Rightarrow> cy_node list" where
  "cy_of_nodes ns = map (\<lambda>n. \<lparr>cy_id = n_id n, cy_classes = split_on (CHR '' '') (n_classes n)\<rparr>) ns"

definition highlighted :: "cy_node list \<Rightarrow> string list" where
  "highlighted cy = map cy_id (filter (\<lambda>n. ''highlighted'' \<in> set (cy_classes n)) cy)"

section \<open>The application state and its handlers\<close>

record AppState =
  runs :: "RunMetadata list"
  selectedRun :: string
  snapshot :: "Snapshot option"
  loading :: bool
  error :: "string option"
  toolCalls :: "ToolCall list"
  terminalFilters :: TerminalFilters
  agentFilter :: string
  severityFilter :: string
  timeRange :: string
  selectedNode :: "GraphSelection option"
  highlightedNodeId :: "string option"
  assetTerminalFilter :: "string option"

definition defaultTerminalFilters :: TerminalFilters where
  "defaultTerminalFilters = \<lparr>agentId = ''all'', tool = ''all'', onlyErrors = False, onlySuccess = False\<rparr>"

text \<open>The values the \<^verbatim>\<open>useState\<close> calls start from.\<close>

definition initialState :: AppState where
  "initialState =
     \<lparr>runs = [], selectedRun = [], snapshot = None, loading = False, error = None,
      toolCalls = [], terminalFilters = defaultTerminalFilters, agentFilter = ''all'',
      severityFilter = ''all'', timeRange = ''all'', selectedNode = None,
      highlightedNodeId = None, assetTerminalFilter = None\<rparr>"

subsection \<open>Loading a snapshot\<close>

text \<open>
  \<^verbatim>\<open>loadSnapshot\<close> is asynchronous: it sets the loading flag and clears the error, waits for
  the fetch, and finishes in one of four ways.  A thrown value is an \<^verbatim>\<open>Error\<close> with its
  message, or something else.
\<close>

datatype thrown = ErrorObj string | NotAnError

text \<open>
  What the fetch comes back with: it rejects (a network failure), or it resolves to a
  response with a status, a status text and a body that parses to a snapshot or makes
  \<^verbatim>\<open>response.json()\<close> reject.  \<^verbatim>\<open>response.ok\<close> is true of the statuses 200 to 299.
\<close>

datatype body = BodyRejected thrown | BodyParsed Snapshot

datatype fetch_outcome =
    FetchRejected thrown
  | Response nat string body

definition response_ok :: "nat \<Rightarrow> bool" where
  "response_ok status = (200 \<le> status \<and> status \<le> 299)"

definition loadSnapshot_begin :: "AppState \<Rightarrow> AppState" where
  "loadSnapshot_begin st = st\<lparr>loading := True, error := None\<rparr>"

text \<open>
  The \<^verbatim>\<open>catch\<close> and \<^verbatim>\<open>finally\<close> blocks:
  \<^verbatim>\<open>loadError instanceof Error ? loadError.message : "Failed to load snapshot"\<close>.
\<close>

definition thrown_message :: "thrown \<Rightarrow> string" where
  "thrown_message t = (case t of ErrorObj m \<Rightarrow> m | NotAnError \<Rightarrow> ''Failed to load snapshot'')"

definition load_failed :: "thrown \<Rightarrow> AppState \<Rightarrow> AppState" where
  "load_failed loadError st = st\<lparr>error := Some (thrown_message loadError), loading := False\<rparr>"

text \<open>
  The continuation after \<^verbatim>\<open>await\<close>.  The run id the fetch was issued for is its first
  argument; the source uses it in the URL only.  On typed data \<^verbatim>\<open>data.tool_calls ?? []\<close>
  is \<^verbatim>\<open>data.tool_calls\<close>.
\<close>

definition loadSnapshot_complete :: "string \<Rightarrow> fetch_outcome \<Rightarrow> AppState \<Rightarrow> AppState" where
  "loadSnapshot_complete runId outcome st =
     (case outcome of
        FetchRejected t \<Rightarrow> load_failed t st
      | Response status statusText b \<Rightarrow>
          if \<not> response_ok status
          then load_failed (ErrorObj (decimal status @ '' '' @ statusText)) st
          else (case b of
                  BodyRejected t \<Rightarrow> load_failed t st
                | BodyParsed data \<Rightarrow>
                    st\<lparr>snapshot := Some data, toolCalls := tool_calls data, loading := False\<rparr>))"

text \<open>
  The failing loads: a network error, a response that is not 2xx, or a body that does not
  parse; and the message each of them carries.
\<close>

definition is_failure :: "fetch_outcome \<Rightarrow> bool" where
  "is_failure outcome =
     (case outcome of
        FetchRejected t \<Rightarrow> True
      | Response status statusText b \<Rightarrow>
          \<not> response_ok status \<or> (case b of BodyRejected t \<Rightarrow> True | BodyParsed data \<Rightarrow> False))"

definition failure_message :: "fetch_outcome \<Rightarrow> string" where
  "failure_message outcome =
     (case outcome of
        FetchRejected (ErrorObj m) \<Rightarrow> m
      | FetchRejected NotAnError \<Rightarrow> ''Failed to load snapshot''
      | Response status statusText b \<Rightarrow>
          if \<not> response_ok status then decimal status @ '' '' @ statusText
          else (case b of BodyRejected (ErrorObj m) \<Rightarrow> m | _ \<Rightarrow> ''Failed to load snapshot''))"

subsection \<open>Live events\<close>

text \<open>
  The clock reading and the random token are inputs: \<^verbatim>\<open>new Date().toISOString()\<close> and
  \<^verbatim>\<open>Math.random().toString(36).slice(2)\<close>.
\<close>

text \<open>\<^verbatim>\<open>typeof event.k === "string" ? event.k : undefined\<close>.\<close>

definition string_prop :: "LiveEvent \<Rightarrow> string \<Rightarrow> string js_opt" where
  "string_prop event k = (case ev_props event k of Some (JStr s) \<Rightarrow> Val s | _ \<Rightarrow> Undefined)"

definition mapEventToToolCall :: "string \<Rightarrow> string \<Rightarrow> LiveEvent \<Rightarrow> ToolCall" where
  "mapEventToToolCall clock token event =
     (let now = (case ev_ts event of Some t \<Rightarrow> t | None \<Rightarrow> clock)
      in \<lparr>tc_id = ''live-'' @ token,
          tc_ts = now,
          tc_agent_id = string_prop event ''agent_id'',
          tc_tool = string_prop event ''tool'',
          tc_target = string_prop event ''target'',
          tc_status = string_prop event ''status'',
          tc_summary = string_prop event ''result_summary'',
          tc_args = (case ev_props event ''args'' of
                       None \<Rightarrow> JObj []
                     | Some a \<Rightarrow> if truthy_json (Some a) \<and> typeof_object (Some a) then a else JObj []),
          tc_result_summary = string_prop event ''result_summary''\<rparr>)"

definition isSameToolCall :: "ToolCall \<Rightarrow> ToolCall \<Rightarrow> bool" where
  "isSameToolCall a b =
     (tc_ts a = tc_ts b \<and> tc_agent_id a = tc_agent_id b \<and> tc_tool a = tc_tool b
      \<and> tc_target a = tc_target b \<and> tc_result_summary a = tc_result_summary b)"



subsection \<open>Selection\<close>


definition handleTerminalSelect :: "ToolCall \<Rightarrow> AppState \<Rightarrow> AppState" where
  "handleTerminalSelect call st =
     (if truthy (tc_target call)
      then st\<lparr>highlightedNodeId := Some (''asset:'' @ nullish_or (tc_target call) [])\<rparr>
      else if truthy (tc_agent_id call)
      then st\<lparr>highlightedNodeId := Some (''agent:'' @ nullish_or (tc_agent_id call) [])\<rparr>
      else st)"

definition handleRunChange :: "string \<Rightarrow> AppState \<Rightarrow> AppState" where
  "handleRunChange v st =
     st\<lparr>selectedRun := v, terminalFilters := defaultTerminalFilters, agentFilter := ''all'',
        severityFilter := ''all'', assetTerminalFilter := None\<rparr>"

section \<open>Example data\<close>

text \<open>
  A snapshot of run A with one agent, one asset, one vulnerability without a severity and
  two edges, the second of which points at an id that is in none of the collections; and an
  empty snapshot of run B.
\<close>

definition call_with_status :: "string js_opt \<Rightarrow> ToolCall" where
  "call_with_status s =
     \<lparr>tc_id = ''c'', tc_ts = ''2024-05-01T10:00:00Z'', tc_agent_id = Val ''a1'',
      tc_tool = Val ''http.get'', tc_target = Undefined, tc_status = s, tc_summary = Undefined,
      tc_args = JObj [], tc_result_summary = Undefined\<rparr>"

definition agentA1 :: Agent where
  "agentA1 = \<lparr>ag_id = ''a1'', ag_label = ''Recon agent'', ag_first_seen = ''2024-05-01T10:00:00Z'',
     ag_last_seen = ''2024-05-01T10:05:00Z''\<rparr>"

definition assetS1 :: Asset where
  "assetS1 = \<lparr>as_id = ''s1'', as_label = ''shop'', as_url = ''https://shop.example'',
     as_first_seen = ''2024-05-01T10:00:00Z'', as_last_seen = ''2024-05-01T10:05:00Z''\<rparr>"

definition vulnV1 :: Vulnerability where
  "vulnV1 = \<lparr>vu_id = ''v1'', vu_agent_id = Val ''a1'', vu_asset_id = Val ''s1'',
     vu_severity = Undefined, vu_category = Undefined, vu_description = Undefined,
     vu_ts = ''2024-05-01T10:03:00Z''\<rparr>"

definition edgeE1 :: Edge where
  "edgeE1 = \<lparr>ed_id = ''e1'', ed_source = ''a1'', ed_target = ''s1'', ed_relation = ''scans'',
     ed_label = Undefined\<rparr>"

definition edgeE2 :: Edge where
  "edgeE2 = \<lparr>ed_id = ''e2'', ed_source = ''a1'', ed_target = ''ghost'', ed_relation = ''scans'',
     ed_label = Null\<rparr>"

definition snapshotA :: Snapshot where
  "snapshotA = \<lparr>run_id = ''run-A'', agents = [agentA1], assets = [assetS1],
     vulnerabilities = [vulnV1], edges = [edgeE1, edgeE2],
     tool_calls = [call_with_status (Val ''OK'')], last_event_ts = Undefined\<rparr>"

definition snapshotB :: Snapshot where
  "snapshotB = \<lparr>run_id = ''run-B'', agents = [], assets = [], vulnerabilities = [], edges = [],
     tool_calls = [], last_event_ts = Null\<rparr>"



text \<open>
  Scenario E: run A is selected and its fetch starts; the user switches to run B, whose
  fetch starts and completes; then the fetch for run A completes.
\<close>

definition scenarioE_before_late_response :: AppState where
  "scenarioE_before_late_response =
     loadSnapshot_complete ''run-B'' (Response 200 ''OK'' (BodyParsed snapshotB))
       (loadSnapshot_begin (handleRunChange ''run-B''
         (loadSnapshot_begin (handleRunChange ''run-A'' initialState))))"

definition callToGhost :: ToolCall where
  "callToGhost = (call_with_status (Val ''OK''))\<lparr>tc_target := Val ''ghost''\<rparr>"

text \<open>
  The snapshot of run A without its dangling edge, and a tool call whose target holds
  double quotes.
\<close>

definition snapshotC :: Snapshot where
  "snapshotC = \<lparr>run_id = ''run-A'', agents = [agentA1], assets = [assetS1],
     vulnerabilities = [vulnV1], edges = [edgeE1],
     tool_calls = [call_with_status (Val ''OK'')], last_event_ts = Undefined\<rparr>"

definition quotedTarget :: string where
  "quotedTarget = ''x'' @ [dq] @ ''], node[id = '' @ [dq] @ ''agent:a1''"

definition callWithQuotes :: ToolCall where
  "callWithQuotes = (call_with_status (Val ''OK''))\<lparr>tc_target := Val quotedTarget\<rparr>"

text \<open>Live events for the ingester.\<close>

definition eventWithSummary :: LiveEvent where
  "eventWithSummary =
     \<lparr>ev_type = Some ''mcp_tool_call'', ev_ts = Some ''2024-05-01T10:06:00Z'',
      ev_props = [''agent_id'' \<mapsto> JStr ''a1'', ''summary'' \<mapsto> JStr ''scan finished'',
                  ''args'' \<mapsto> JStr ''not an object'']\<rparr>"

definition eventWithBoth :: LiveEvent where
  "eventWithBoth =
     \<lparr>ev_type = Some ''mcp_tool_call'', ev_ts = Some ''2024-05-01T10:07:00Z'',
      ev_props = [''summary'' \<mapsto> JStr ''short'', ''result_summary'' \<mapsto> JStr ''long result'']\<rparr>"


section \<open>The status filter of the terminal view\<close>

lemma toLowerCase_Nil_iff: "toLowerCase s = [] \<longleftrightarrow> s = []"
  by (simp add: toLowerCase_def)

lemma normalizedStatus_absent:
  "tc_status call = Undefined \<or> tc_status call = Null \<Longrightarrow> normalizedStatus call = []"
  by (auto simp: normalizedStatus_def toLowerCase_def)

lemma normalizedStatus_Val: "tc_status call = Val s \<Longrightarrow> normalizedStatus call = toLowerCase s"
  by (simp add: normalizedStatus_def)

lemma isError_iff:
  "isError call \<longleftrightarrow>
     (\<exists>s. tc_status call = Val s \<and> toLowerCase s \<noteq> [] \<and> toLowerCase s \<noteq> ''ok''
          \<and> toLowerCase s \<noteq> ''success'')"
proof (cases "tc_status call")
  case (Val s)
  then show ?thesis by (simp add: isError_def normalizedStatus_Val)
qed (simp_all add: isError_def normalizedStatus_absent)

lemma isSuccess_iff:
  "isSuccess call \<longleftrightarrow>
     (\<exists>s. tc_status call = Val s \<and> (toLowerCase s = ''ok'' \<or> toLowerCase s = ''success''))"
proof (cases "tc_status call")
  case (Val s)
  then show ?thesis by (simp add: isSuccess_def normalizedStatus_Val)
qed (simp_all add: isSuccess_def normalizedStatus_absent)

lemma keepCall_iff:
  "keepCall filters call \<longleftrightarrow>
     (agentId filters = ''all'' \<or> tc_agent_id call = Val (agentId filters))
     \<and> (tool filters = ''all'' \<or> tc_tool call = Val (tool filters))
     \<and> (onlyErrors filters \<longrightarrow> isError call)
     \<and> (onlySuccess filters \<longrightarrow> isSuccess call)"
  by (auto simp: keepCall_def)

lemma set_filteredCalls:
  "set (filteredCalls calls filters) = {call \<in> set calls. keepCall filters call}"
  by (simp add: filteredCalls_def)

lemma lower_FAILED: "toLowerCase ''FAILED'' = ''failed''"
  by code_simp

lemma lower_OK: "toLowerCase ''OK'' = ''ok''"
  by code_simp

text \<open>
  Claim C8.  A tool call is an error exactly when its lower-cased status is non-empty and
  neither \<^verbatim>\<open>"ok"\<close> nor \<^verbatim>\<open>"success"\<close>, and a success exactly when it is one of the two.
  A call without a status (missing or \<^verbatim>\<open>null\<close>) is neither, so it is not in the filtered
  list when either toggle is on.  Each toggle restricts the list to its class, and with
  both toggles on the list is the intersection of the two restricted lists.
\<close>

theorem status_classification:
  "(isError call \<longleftrightarrow>
      (\<exists>s. tc_status call = Val s \<and> toLowerCase s \<noteq> [] \<and> toLowerCase s \<noteq> ''ok''
           \<and> toLowerCase s \<noteq> ''success''))
   \<and> (isSuccess call \<longleftrightarrow>
      (\<exists>s. tc_status call = Val s \<and> (toLowerCase s = ''ok'' \<or> toLowerCase s = ''success'')))
   \<and> (tc_status call = Undefined \<or> tc_status call = Null \<longrightarrow>
        \<not> isError call \<and> \<not> isSuccess call
        \<and> (onlyErrors filters \<or> onlySuccess filters \<longrightarrow> call \<notin> set (filteredCalls calls filters)))
   \<and> (call \<in> set (filteredCalls calls filters) \<longleftrightarrow>
        call \<in> set calls
        \<and> (agentId filters = ''all'' \<or> tc_agent_id call = Val (agentId filters))
        \<and> (tool filters = ''all'' \<or> tc_tool call = Val (tool filters))
        \<and> (onlyErrors filters \<longrightarrow> isError call)
        \<and> (onlySuccess filters \<longrightarrow> isSuccess call))
   \<and> set (filteredCalls calls (filters\<lparr>onlyErrors := True, onlySuccess := True\<rparr>))
       = set (filteredCalls calls (filters\<lparr>onlyErrors := True, onlySuccess := False\<rparr>))
         \<inter> set (filteredCalls calls (filters\<lparr>onlyErrors := False, onlySuccess := True\<rparr>))"
proof (intro conjI)
  show "isError call \<longleftrightarrow>
      (\<exists>s. tc_status call = Val s \<and> toLowerCase s \<noteq> [] \<and> toLowerCase s \<noteq> ''ok''
           \<and> toLowerCase s \<noteq> ''success'')"
    by (rule isError_iff)
  show "isSuccess call \<longleftrightarrow>
      (\<exists>s. tc_status call = Val s \<and> (toLowerCase s = ''ok'' \<or> toLowerCase s = ''success''))"
    by (rule isSuccess_iff)
  show "tc_status call = Undefined \<or> tc_status call = Null \<longrightarrow>
        \<not> isError call \<and> \<not> isSuccess call
        \<and> (onlyErrors filters \<or> onlySuccess filters \<longrightarrow> call \<notin> set (filteredCalls calls filters))"
  proof
    assume absent: "tc_status call = Undefined \<or> tc_status call = Null"
    then have neither: "\<not> isError call" "\<not> isSuccess call"
      by (auto simp: isError_iff isSuccess_iff)
    then show "\<not> isError call \<and> \<not> isSuccess call
        \<and> (onlyErrors filters \<or> onlySuccess filters \<longrightarrow> call \<notin> set (filteredCalls calls filters))"
      by (auto simp: set_filteredCalls keepCall_iff)
  qed
  show "call \<in> set (filteredCalls calls filters) \<longleftrightarrow>
        call \<in> set calls
        \<and> (agentId filters = ''all'' \<or> tc_agent_id call = Val (agentId filters))
        \<and> (tool filters = ''all'' \<or> tc_tool call = Val (tool filters))
        \<and> (onlyErrors filters \<longrightarrow> isError call)
        \<and> (onlySuccess filters \<longrightarrow> isSuccess call)"
    by (simp add: set_filteredCalls keepCall_iff)
  show "set (filteredCalls calls (filters\<lparr>onlyErrors := True, onlySuccess := True\<rparr>))
       = set (filteredCalls calls (filters\<lparr>onlyErrors := True, onlySuccess := False\<rparr>))
         \<inter> set (filteredCalls calls (filters\<lparr>onlyErrors := False, onlySuccess := True\<rparr>))"
    by (auto simp: set_filteredCalls keepCall_iff)
qed

theorem status_classification_witness:
  "isError (call_with_status (Val ''FAILED''))
   \<and> \<not> isSuccess (call_with_status (Val ''FAILED''))
   \<and> isSuccess (call_with_status (Val ''OK''))
   \<and> \<not> isError (call_with_status (Val ''OK''))
   \<and> \<not> isError (call_with_status Undefined) \<and> \<not> isSuccess (call_with_status Undefined)
   \<and> call_with_status Undefined \<notin> set (filteredCalls
        [call_with_status (Val ''FAILED''), call_with_status (Val ''OK''), call_with_status Undefined]
        (defaultTerminalFilters\<lparr>onlyErrors := True\<rparr>))
   \<and> call_with_status Undefined \<notin> set (filteredCalls
        [call_with_status (Val ''FAILED''), call_with_status (Val ''OK''), call_with_status Undefined]
        (defaultTerminalFilters\<lparr>onlySuccess := True\<rparr>))"
  using status_classification [of "call_with_status (Val ''FAILED'')" defaultTerminalFilters "[]"]
    status_classification [of "call_with_status (Val ''OK'')" defaultTerminalFilters "[]"]
    status_classification [of "call_with_status Undefined" "defaultTerminalFilters\<lparr>onlyErrors := True\<rparr>"
      "[call_with_status (Val ''FAILED''), call_with_status (Val ''OK''), call_with_status Undefined]"]
    status_classification [of "call_with_status Undefined" "defaultTerminalFilters\<lparr>onlySuccess := True\<rparr>"
      "[call_with_status (Val ''FAILED''), call_with_status (Val ''OK''), call_with_status Undefined]"]
  by (simp add: call_with_status_def lower_FAILED lower_OK defaultTerminalFilters_def)

section \<open>Loading a snapshot\<close>

lemma decimal_404: "decimal 404 = ''404''"
  by code_simp

lemma response_ok_200: "response_ok 200"
  by (simp add: response_ok_def)

lemma loadSnapshot_complete_failure:
  "is_failure outcome \<Longrightarrow>
     loadSnapshot_complete runId outcome st = st\<lparr>error := Some (failure_message outcome), loading := False\<rparr>"
  by (auto simp: is_failure_def failure_message_def loadSnapshot_complete_def load_failed_def
      thrown_message_def split: fetch_outcome.splits body.splits thrown.splits)

lemma loadSnapshot_complete_success:
  "response_ok status \<Longrightarrow>
     loadSnapshot_complete runId (Response status statusText (BodyParsed data)) st
       = st\<lparr>snapshot := Some data, toolCalls := tool_calls data, loading := False\<rparr>"
  by (simp add: loadSnapshot_complete_def)

lemma scenarioE_state:
  "selectedRun scenarioE_before_late_response = ''run-B''"
  "snapshot scenarioE_before_late_response = Some snapshotB"
  "toolCalls scenarioE_before_late_response = []"
  by (simp_all add: scenarioE_before_late_response_def loadSnapshot_complete_success response_ok_200
      loadSnapshot_begin_def handleRunChange_def snapshotB_def)

text \<open>
  Claim C6.  When a snapshot load fails (the fetch rejects, the response is not 2xx, or
  the body does not parse), the store holds an error message (the status line, the
  message of the error, or a fixed text), the loading flag is off, and the snapshot and
  the tool-call list are the ones held before the load started.
\<close>

theorem failed_load_keeps_snapshot:
  "is_failure outcome \<Longrightarrow>
     error (loadSnapshot_complete runId outcome (loadSnapshot_begin st)) = Some (failure_message outcome)
     \<and> snapshot (loadSnapshot_complete runId outcome (loadSnapshot_begin st)) = snapshot st
     \<and> toolCalls (loadSnapshot_complete runId outcome (loadSnapshot_begin st)) = toolCalls st
     \<and> loading (loadSnapshot_complete runId outcome (loadSnapshot_begin st)) = False
     \<and> snapshot (loadSnapshot_complete runId outcome st) = snapshot st
     \<and> toolCalls (loadSnapshot_complete runId outcome st) = toolCalls st
     \<and> error (loadSnapshot_complete runId outcome st) = Some (failure_message outcome)"
  by (simp add: loadSnapshot_complete_failure loadSnapshot_begin_def)

theorem failed_load_keeps_snapshot_witness:
  "is_failure (Response 404 ''Not Found'' (BodyParsed snapshotA))
   \<and> error (loadSnapshot_complete ''run-B'' (Response 404 ''Not Found'' (BodyParsed snapshotA))
        (loadSnapshot_begin scenarioE_before_late_response)) = Some ''404 Not Found''
   \<and> snapshot (loadSnapshot_complete ''run-B'' (Response 404 ''Not Found'' (BodyParsed snapshotA))
        (loadSnapshot_begin scenarioE_before_late_response)) = Some snapshotB
   \<and> toolCalls (loadSnapshot_complete ''run-B'' (Response 404 ''Not Found'' (BodyParsed snapshotA))
        (loadSnapshot_begin scenarioE_before_late_response)) = []"
proof -
  have f: "is_failure (Response 404 ''Not Found'' (BodyParsed snapshotA))"
    by (simp add: is_failure_def response_ok_def)
  have m: "failure_message (Response 404 ''Not Found'' (BodyParsed snapshotA)) = ''404 Not Found''"
    by (simp add: failure_message_def response_ok_def decimal_404)
  show ?thesis
    using failed_load_keeps_snapshot [OF f, of "''run-B''" scenarioE_before_late_response] f m
    by (simp add: scenarioE_state)
qed

text \<open>
  Claim C2, as stated: a response for a run that is no longer selected is discarded.  In
  scenario E the response for run A arrives while run B is selected and holds its own
  snapshot, and the store ends up with run A's snapshot and tool calls.
\<close>

theorem late_response_counterexample:
  "selectedRun scenarioE_before_late_response = ''run-B''
   \<and> snapshot scenarioE_before_late_response = Some snapshotB
   \<and> selectedRun (loadSnapshot_complete ''run-A'' (Response 200 ''OK'' (BodyParsed snapshotA))
        scenarioE_before_late_response) = ''run-B''
   \<and> snapshot (loadSnapshot_complete ''run-A'' (Response 200 ''OK'' (BodyParsed snapshotA))
        scenarioE_before_late_response) = Some snapshotA
   \<and> toolCalls (loadSnapshot_complete ''run-A'' (Response 200 ''OK'' (BodyParsed snapshotA))
        scenarioE_before_late_response) = tool_calls snapshotA
   \<and> run_id snapshotA \<noteq> ''run-B''
   \<and> tool_calls snapshotA \<noteq> toolCalls scenarioE_before_late_response"
  by (simp add: scenarioE_state loadSnapshot_complete_success response_ok_200 snapshotA_def)

text \<open>
  Claim C2, amended.  A successful response is applied whatever run is selected when it
  arrives: the snapshot and the tool-call list become those of the response and the
  selected run stays as it is.  Neither the run the fetch was issued for nor the selected
  run has any influence on what a completed fetch does to the store.
\<close>

theorem response_applied_whatever_run_is_selected:
  "(response_ok status \<longrightarrow>
      snapshot (loadSnapshot_complete runId (Response status statusText (BodyParsed data)) st) = Some data
      \<and> toolCalls (loadSnapshot_complete runId (Response status statusText (BodyParsed data)) st)
          = tool_calls data
      \<and> selectedRun (loadSnapshot_complete runId (Response status statusText (BodyParsed data)) st)
          = selectedRun st)
   \<and> loadSnapshot_complete runId outcome st = loadSnapshot_complete runId' outcome st
   \<and> loadSnapshot_complete runId outcome (st\<lparr>selectedRun := r\<rparr>)
       = (loadSnapshot_complete runId outcome st)\<lparr>selectedRun := r\<rparr>"
proof (intro conjI impI)
  assume ok: "response_ok status"
  show "snapshot (loadSnapshot_complete runId (Response status statusText (BodyParsed data)) st) = Some data"
    and "toolCalls (loadSnapshot_complete runId (Response status statusText (BodyParsed data)) st)
          = tool_calls data"
    and "selectedRun (loadSnapshot_complete runId (Response status statusText (BodyParsed data)) st)
          = selectedRun st"
    by (simp_all add: loadSnapshot_complete_success [OF ok])
next
  show "loadSnapshot_complete runId outcome st = loadSnapshot_complete runId' outcome st"
    by (simp add: loadSnapshot_complete_def)
next
  show "loadSnapshot_complete runId outcome (st\<lparr>selectedRun := r\<rparr>)
       = (loadSnapshot_complete runId outcome st)\<lparr>selectedRun := r\<rparr>"
    by (simp add: loadSnapshot_complete_def load_failed_def split: fetch_outcome.splits body.splits)
qed

theorem response_applied_whatever_run_is_selected_witness:
  "response_ok 200
   \<and> snapshot (loadSnapshot_complete ''run-A'' (Response 200 ''OK'' (BodyParsed snapshotA))
        scenarioE_before_late_response) = Some snapshotA
   \<and> selectedRun (loadSnapshot_complete ''run-A'' (Response 200 ''OK'' (BodyParsed snapshotA))
        scenarioE_before_late_response) = ''run-B''"
  using response_applied_whatever_run_is_selected
    [of 200 "''run-A''" "''OK''" snapshotA scenarioE_before_late_response
        "Response 200 ''OK'' (BodyParsed snapshotA)" "''run-A''" "''run-B''"]
    response_ok_200
  by (simp add: scenarioE_state)

section \<open>Selection\<close>











section \<open>Live events\<close>

lemma string_prop_simps:
  "ev_props event k = Some (JStr s) \<Longrightarrow> string_prop event k = Val s"
  "ev_props event k = None \<Longrightarrow> string_prop event k = Undefined"
  by (simp_all add: string_prop_def)

lemma mapEventToToolCall_args_default:
  "\<not> typeof_object (ev_props event ''args'') \<Longrightarrow> tc_args (mapEventToToolCall clock token event) = JObj []"
  by (auto simp: mapEventToToolCall_def split: option.splits)

lemma mapEventToToolCall_summary:
  "tc_summary (mapEventToToolCall clock token event) = string_prop event ''result_summary''"
  by (simp add: mapEventToToolCall_def)

lemma mapEventToToolCall_result_summary:
  "tc_result_summary (mapEventToToolCall clock token event) = string_prop event ''result_summary''"
  by (simp add: mapEventToToolCall_def)

text \<open>
  Claim C5 at a failing input.  An event whose \<^verbatim>\<open>summary\<close> is a string and which has no
  \<^verbatim>\<open>result_summary\<close> is mapped to a tool call without a summary, and an event with both
  gets the result summary in both fields: the summary of the tool call is read from
  \<^verbatim>\<open>event.result_summary\<close>, never from \<^verbatim>\<open>event.summary\<close>.  The arguments are defaulted to
  the empty mapping as claimed.
\<close>

theorem event_summary_not_copied:
  "ev_props eventWithSummary ''summary'' = Some (JStr ''scan finished'')
   \<and> tc_summary (mapEventToToolCall ''2024-05-01T10:06:01Z'' ''k3j2'' eventWithSummary) = Undefined
   \<and> tc_args (mapEventToToolCall ''2024-05-01T10:06:01Z'' ''k3j2'' eventWithSummary) = JObj []
   \<and> ev_props eventWithBoth ''summary'' = Some (JStr ''short'')
   \<and> tc_summary (mapEventToToolCall ''2024-05-01T10:07:01Z'' ''p0q9'' eventWithBoth) = Val ''long result''
   \<and> tc_result_summary (mapEventToToolCall ''2024-05-01T10:07:01Z'' ''p0q9'' eventWithBoth) = Val ''long result''"
  by (simp add: mapEventToToolCall_def eventWithSummary_def eventWithBoth_def string_prop_def)


lemma isSameToolCall_remapped:
  "ev_ts payload \<noteq> None \<or> clock' = clock \<Longrightarrow>
     isSameToolCall (mapEventToToolCall clock token payload) (mapEventToToolCall clock' token' payload)"
  by (auto simp: isSameToolCall_def mapEventToToolCall_def)








section \<open>The graph projection\<close>

lemma map_set_keys: "fst ` set (map_set m k v) = insert k (fst ` set m)"
  by (induction m k v rule: map_set.induct) auto

lemma foldl_map_set_keys:
  "fst ` set (foldl (\<lambda>m (k, v). map_set m k v) m entries) = fst ` set m \<union> fst ` set entries"
proof (induction entries arbitrary: m)
  case Nil
  then show ?case by simp
next
  case (Cons e entries)
  obtain k v where e: "e = (k, v)" by (cases e)
  show ?case
    by (simp add: e Cons.IH map_set_keys)
qed

lemma map_has_new_Map: "map_has (new_Map entries) k \<longleftrightarrow> k \<in> fst ` set entries"
  by (simp add: map_has_def new_Map_def foldl_map_set_keys)

lemma map_has_agentsMap: "map_has (agentsMap snap) k \<longleftrightarrow> k \<in> ag_id ` set (agents snap)"
  by (simp add: agentsMap_def map_has_new_Map image_image)

lemma map_has_assetsMap: "map_has (assetsMap snap) k \<longleftrightarrow> k \<in> as_id ` set (assets snap)"
  by (simp add: assetsMap_def map_has_new_Map image_image)

lemma map_has_vulnsMap: "map_has (vulnsMap snap) k \<longleftrightarrow> k \<in> vu_id ` set (vulnerabilities snap)"
  by (simp add: vulnsMap_def map_has_new_Map image_image)

lemma prefix_cases:
  "prefix snap ident =
     (if ident \<in> ag_id ` set (agents snap) then ''agent:'' @ ident
      else if ident \<in> vu_id ` set (vulnerabilities snap) then ''vuln:'' @ ident
      else if ident \<in> as_id ` set (assets snap) then ''asset:'' @ ident
      else ident)"
  by (simp add: prefix_def map_has_agentsMap map_has_assetsMap map_has_vulnsMap)

lemma prefix_Nil_iff:
  "prefix snap ident = [] \<longleftrightarrow>
     ident = [] \<and> ident \<notin> ag_id ` set (agents snap) \<and> ident \<notin> vu_id ` set (vulnerabilities snap)
     \<and> ident \<notin> as_id ` set (assets snap)"
  by (simp add: prefix_cases)

text \<open>
  A stored value of a map is the last entry of its key.
\<close>

lemma map_set_values: "(k', v') \<in> set (map_set m k v) \<Longrightarrow> (k', v') \<in> set m \<or> (k', v') = (k, v)"
  by (induction m k v rule: map_set.induct) (auto split: if_splits)

lemma foldl_map_set_values:
  "(k, v) \<in> set (foldl (\<lambda>m (k, v). map_set m k v) m entries) \<Longrightarrow> (k, v) \<in> set m \<or> (k, v) \<in> set entries"
proof (induction entries arbitrary: m)
  case Nil
  then show ?case by simp
next
  case (Cons e entries)
  obtain k' v' where e: "e = (k', v')" by (cases e)
  from Cons.prems have "(k, v) \<in> set (map_set m k' v') \<or> (k, v) \<in> set entries"
    using Cons.IH [of "map_set m k' v'"] by (simp add: e)
  then show ?case
    using map_set_values [of k v m k' v'] by (auto simp: e)
qed

lemma new_Map_values: "(k, v) \<in> set (new_Map entries) \<Longrightarrow> (k, v) \<in> set entries"
  using foldl_map_set_values [of k v "[]" entries] by (simp add: new_Map_def)

lemma graph_node_ids:
  "set (map n_id (graph_nodes snap af sf))
     = (\<lambda>i. ''agent:'' @ i) ` ag_id ` set (agents snap)
       \<union> (\<lambda>i. ''asset:'' @ i) ` as_id ` set (assets snap)
       \<union> (\<lambda>i. ''vuln:'' @ i) ` vu_id ` set (vulnerabilities snap)"
proof -
  have a: "n_id ` (\<lambda>(k, agent). agent_node af agent) ` set (agentsMap snap)
             = (\<lambda>i. ''agent:'' @ i) ` ag_id ` set (agents snap)" (is "?L = ?R")
  proof
    show "?L \<subseteq> ?R"
      by (auto simp: agent_node_def agentsMap_def dest!: new_Map_values)
    show "?R \<subseteq> ?L"
    proof
      fix x assume "x \<in> ?R"
      then obtain i where i: "i \<in> ag_id ` set (agents snap)" and x: "x = ''agent:'' @ i" by auto
      then have "map_has (agentsMap snap) i" by (simp add: map_has_agentsMap)
      then obtain ag where m: "(i, ag) \<in> set (agentsMap snap)" by (auto simp: map_has_def)
      then have "ag_id ag = i" by (auto simp: agentsMap_def dest!: new_Map_values)
      with m x show "x \<in> ?L" by (force simp: agent_node_def)
    qed
  qed
  have s: "n_id ` (\<lambda>(k, asset). asset_node asset) ` set (assetsMap snap)
             = (\<lambda>i. ''asset:'' @ i) ` as_id ` set (assets snap)" (is "?L = ?R")
  proof
    show "?L \<subseteq> ?R"
      by (auto simp: asset_node_def assetsMap_def dest!: new_Map_values)
    show "?R \<subseteq> ?L"
    proof
      fix x assume "x \<in> ?R"
      then obtain i where i: "i \<in> as_id ` set (assets snap)" and x: "x = ''asset:'' @ i" by auto
      then have "map_has (assetsMap snap) i" by (simp add: map_has_assetsMap)
      then obtain ag where m: "(i, ag) \<in> set (assetsMap snap)" by (auto simp: map_has_def)
      then have "as_id ag = i" by (auto simp: assetsMap_def dest!: new_Map_values)
      with m x show "x \<in> ?L" by (force simp: asset_node_def)
    qed
  qed
  have v: "n_id ` (\<lambda>(k, vuln). vuln_node sf vuln) ` set (vulnsMap snap)
             = (\<lambda>i. ''vuln:'' @ i) ` vu_id ` set (vulnerabilities snap)" (is "?L = ?R")
  proof
    show "?L \<subseteq> ?R"
      by (auto simp: vuln_node_def vulnsMap_def Let_def dest!: new_Map_values)
    show "?R \<subseteq> ?L"
    proof
      fix x assume "x \<in> ?R"
      then obtain i where i: "i \<in> vu_id ` set (vulnerabilities snap)" and x: "x = ''vuln:'' @ i" by auto
      then have "map_has (vulnsMap snap) i" by (simp add: map_has_vulnsMap)
      then obtain ag where m: "(i, ag) \<in> set (vulnsMap snap)" by (auto simp: map_has_def)
      then have "vu_id ag = i" by (auto simp: vulnsMap_def dest!: new_Map_values)
      with m x show "x \<in> ?L" by (force simp: vuln_node_def Let_def)
    qed
  qed
  have "set (map n_id (graph_nodes snap af sf))
          = n_id ` (\<lambda>(k, agent). agent_node af agent) ` set (agentsMap snap)
            \<union> n_id ` (\<lambda>(k, asset). asset_node asset) ` set (assetsMap snap)
            \<union> n_id ` (\<lambda>(k, vuln). vuln_node sf vuln) ` set (vulnsMap snap)"
    by (simp only: graph_nodes_def map_append set_append set_map Un_assoc)
  then show ?thesis
    by (simp only: a s v)
qed

lemma asset_node_id_rendered:
  "''asset:'' @ t \<in> set (map n_id (graph_nodes snap af sf)) \<longleftrightarrow> t \<in> as_id ` set (assets snap)"
  unfolding graph_node_ids by auto

lemma graph_edges_filter_first:
  "graph_edges snap = map (project_edge snap) (filter (\<lambda>edge. edge_kept (project_edge snap edge)) (edges snap))"
  by (simp add: graph_edges_def filter_map comp_def)

text \<open>
  Claim C4, as stated: an edge with an endpoint in none of the three collections is
  dropped.  Edge \<open>e2\<close> of the example snapshot points at \<open>ghost\<close>, which is no agent,
  vulnerability or asset; the projection keeps it, with \<open>ghost\<close> as its target.
\<close>

theorem unresolved_edge_counterexample:
  "edgeE2 \<in> set (edges snapshotA)
   \<and> ed_target edgeE2 = ''ghost''
   \<and> ''ghost'' \<notin> set (map ag_id (agents snapshotA))
   \<and> ''ghost'' \<notin> set (map vu_id (vulnerabilities snapshotA))
   \<and> ''ghost'' \<notin> set (map as_id (assets snapshotA))
   \<and> graph_edges snapshotA
       = [\<lparr>e_id = ''e1'', e_source = ''agent:a1'', e_target = ''asset:s1'', e_label = ''scans''\<rparr>,
          \<lparr>e_id = ''e2'', e_source = ''agent:a1'', e_target = ''ghost'', e_label = ''scans''\<rparr>]"
  by (simp add: snapshotA_def edgeE1_def edgeE2_def agentA1_def assetS1_def vulnV1_def
      graph_edges_def project_edge_def edge_kept_def prefix_cases)

text \<open>
  Claim C4, amended.  For every edge of the snapshot the projection rewrites each endpoint
  by resolving it against the agent, vulnerability and asset ids in that order of
  precedence, and an endpoint that resolves to none of the three is left as the raw id.
  The rendered edges are the rewritten edges, in snapshot order, of those edges whose two
  rewritten endpoints are non-empty strings; so an edge is dropped only when one of its
  endpoints is the empty string and is no id of the three collections, and every edge
  with two non-empty endpoints is rendered.  The projection computes a new list and leaves
  the snapshot as it is.
\<close>

theorem edge_projection:
  "prefix snap ident =
     (if ident \<in> ag_id ` set (agents snap) then ''agent:'' @ ident
      else if ident \<in> vu_id ` set (vulnerabilities snap) then ''vuln:'' @ ident
      else if ident \<in> as_id ` set (assets snap) then ''asset:'' @ ident
      else ident)
   \<and> graph_edges snap =
       map (\<lambda>edge. \<lparr>e_id = ed_id edge, e_source = prefix snap (ed_source edge),
                     e_target = prefix snap (ed_target edge),
                     e_label = nullish_or (ed_label edge) (ed_relation edge)\<rparr>)
         (filter (\<lambda>edge. prefix snap (ed_source edge) \<noteq> [] \<and> prefix snap (ed_target edge) \<noteq> [])
            (edges snap))
   \<and> (prefix snap ident = [] \<longleftrightarrow>
        ident = [] \<and> ident \<notin> ag_id ` set (agents snap)
        \<and> ident \<notin> vu_id ` set (vulnerabilities snap) \<and> ident \<notin> as_id ` set (assets snap))
   \<and> (edge \<in> set (edges snap) \<and> ed_source edge \<noteq> [] \<and> ed_target edge \<noteq> [] \<longrightarrow>
        \<lparr>e_id = ed_id edge, e_source = prefix snap (ed_source edge),
         e_target = prefix snap (ed_target edge),
         e_label = nullish_or (ed_label edge) (ed_relation edge)\<rparr> \<in> set (graph_edges snap))"
proof (intro conjI)
  show "prefix snap ident =
     (if ident \<in> ag_id ` set (agents snap) then ''agent:'' @ ident
      else if ident \<in> vu_id ` set (vulnerabilities snap) then ''vuln:'' @ ident
      else if ident \<in> as_id ` set (assets snap) then ''asset:'' @ ident
      else ident)"
    by (rule prefix_cases)
  show "graph_edges snap =
       map (\<lambda>edge. \<lparr>e_id = ed_id edge, e_source = prefix snap (ed_source edge),
                     e_target = prefix snap (ed_target edge),
                     e_label = nullish_or (ed_label edge) (ed_relation edge)\<rparr>)
         (filter (\<lambda>edge. prefix snap (ed_source edge) \<noteq> [] \<and> prefix snap (ed_target edge) \<noteq> [])
            (edges snap))"
    by (simp add: graph_edges_filter_first project_edge_def edge_kept_def)
  show "prefix snap ident = [] \<longleftrightarrow>
        ident = [] \<and> ident \<notin> ag_id ` set (agents snap)
        \<and> ident \<notin> vu_id ` set (vulnerabilities snap) \<and> ident \<notin> as_id ` set (assets snap)"
    by (rule prefix_Nil_iff)
  show "edge \<in> set (edges snap) \<and> ed_source edge \<noteq> [] \<and> ed_target edge \<noteq> [] \<longrightarrow>
        \<lparr>e_id = ed_id edge, e_source = prefix snap (ed_source edge),
         e_target = prefix snap (ed_target edge),
         e_label = nullish_or (ed_label edge) (ed_relation edge)\<rparr> \<in> set (graph_edges snap)"
  proof
    assume e: "edge \<in> set (edges snap) \<and> ed_source edge \<noteq> [] \<and> ed_target edge \<noteq> []"
    then have "edge_kept (project_edge snap edge)"
      by (simp add: edge_kept_def project_edge_def prefix_Nil_iff)
    with e have "project_edge snap edge \<in> set (graph_edges snap)"
      by (simp add: graph_edges_def)
    then show "\<lparr>e_id = ed_id edge, e_source = prefix snap (ed_source edge),
         e_target = prefix snap (ed_target edge),
         e_label = nullish_or (ed_label edge) (ed_relation edge)\<rparr> \<in> set (graph_edges snap)"
      by (simp add: project_edge_def)
  qed
qed

theorem edge_projection_witness:
  "edgeE1 \<in> set (edges snapshotA) \<and> ed_source edgeE1 \<noteq> [] \<and> ed_target edgeE1 \<noteq> []
   \<and> prefix snapshotA ''a1'' = ''agent:a1''
   \<and> prefix snapshotA ''s1'' = ''asset:s1''
   \<and> prefix snapshotA ''v1'' = ''vuln:v1''
   \<and> prefix snapshotA ''ghost'' = ''ghost''
   \<and> \<lparr>e_id = ''e1'', e_source = ''agent:a1'', e_target = ''asset:s1'', e_label = ''scans''\<rparr>
       \<in> set (graph_edges snapshotA)"
proof -
  have e: "edgeE1 \<in> set (edges snapshotA) \<and> ed_source edgeE1 \<noteq> [] \<and> ed_target edgeE1 \<noteq> []"
    by (simp add: snapshotA_def edgeE1_def)
  have ids: "ag_id ` set (agents snapshotA) = {''a1''}" "as_id ` set (assets snapshotA) = {''s1''}"
    "vu_id ` set (vulnerabilities snapshotA) = {''v1''}"
    by (simp_all add: snapshotA_def agentA1_def assetS1_def vulnV1_def)
  have f: "ed_id edgeE1 = ''e1''" "ed_source edgeE1 = ''a1''" "ed_target edgeE1 = ''s1''"
    "nullish_or (ed_label edgeE1) (ed_relation edgeE1) = ''scans''"
    by (simp_all add: edgeE1_def)
  show ?thesis
    using edge_projection [of snapshotA "''a1''" edgeE1] edge_projection [of snapshotA "''s1''" edgeE1]
      edge_projection [of snapshotA "''v1''" edgeE1] edge_projection [of snapshotA "''ghost''" edgeE1] e
    by (simp add: ids f)
qed

section \<open>The severity filter of the graph view\<close>

lemma lower_low: "toLowerCase ''low'' = ''low''"
  by code_simp

lemma lower_char_idem: "lower_char (lower_char c) = lower_char c"
  by (auto simp: lower_char_def Let_def)

lemma toLowerCase_idem: "toLowerCase (toLowerCase s) = toLowerCase s"
  by (simp add: toLowerCase_def lower_char_idem)

lemma shouldFadeVuln_all: "shouldFadeVuln ''all'' severity = False"
  by (simp add: shouldFadeVuln_def)

lemma vuln_node_faded_iff:
  "n_classes (vuln_node sf vuln) = ''vuln faded'' \<longleftrightarrow>
     sf \<noteq> ''all''
     \<and> (case vu_severity vuln of Val s \<Rightarrow> toLowerCase s | _ \<Rightarrow> ''low'') \<noteq> sf"
  by (cases "vu_severity vuln")
     (simp_all add: vuln_node_def shouldFadeVuln_def Let_def toLowerCase_idem lower_low)

text \<open>
  Claim C7 at a failing input.  Vulnerability \<open>v1\<close> has no severity.  With the severity
  filter at \<^verbatim>\<open>"low"\<close> the predicate of the filter, given the severity of the record, fades
  it (its normalized severity is \<^verbatim>\<open>"unknown"\<close>); the node of the graph is built from the
  severity defaulted to \<^verbatim>\<open>"low"\<close> and is not faded.  With the filter at \<^verbatim>\<open>"unknown"\<close>
  the node is faded.
\<close>

theorem missing_severity_treated_as_low:
  "vu_severity vulnV1 = Undefined
   \<and> shouldFadeVuln ''low'' (vu_severity vulnV1) = True
   \<and> shouldFadeVuln ''unknown'' (vu_severity vulnV1) = False
   \<and> n_classes (vuln_node ''low'' vulnV1) = ''vuln''
   \<and> n_classes (vuln_node ''unknown'' vulnV1) = ''vuln faded''
   \<and> NodeEl \<lparr>n_id = ''vuln:v1'', n_label = ''v1'', n_entityType = EVuln, n_severity = Some ''low'',
             n_classes = ''vuln''\<rparr> \<in> set (GraphView_elements (Some snapshotA) ''all'' ''low'')"
  by (simp add: vulnV1_def shouldFadeVuln_def vuln_node_def lower_low GraphView_elements_def
      graph_nodes_def snapshotA_def vulnsMap_def new_Map_def)

section \<open>Highlight from a terminal row\<close>

lemma handleTerminalSelect_target:
  "tc_target call = Val t \<Longrightarrow> t \<noteq> [] \<Longrightarrow>
     highlightedNodeId (handleTerminalSelect call st) = Some (''asset:'' @ t)"
  by (simp add: handleTerminalSelect_def)

lemma highlighted_cleared: "highlighted (map (removeClass ''highlighted'') cy) = []"
  by (induction cy) (simp_all add: highlighted_def removeClass_def)

lemma cy_of_nodes_ids: "map cy_id (cy_of_nodes ns) = map n_id ns"
  by (simp add: cy_of_nodes_def comp_def)

lemma split_on_no_sep: "c \<notin> set xs \<Longrightarrow> split_on c xs = [xs]"
  by (induction xs) auto

lemma split_on_append_sep: "c \<notin> set xs \<Longrightarrow> split_on c (xs @ c # ys) = xs # split_on c ys"
  by (induction xs) auto

lemma split_id_selector:
  assumes "dq \<notin> set h"
  shows "split_on dq (id_selector h) = [''node[id = '', h, '']'']"
proof -
  have nq_open: "dq \<notin> set ''node[id = ''" and nq_close: "dq \<notin> set '']''"
    by (simp_all add: dq_def)
  have "id_selector h = ''node[id = '' @ dq # (h @ dq # '']'')"
    by (simp add: id_selector_def)
  then show ?thesis
    by (simp only: split_on_append_sep [OF nq_open] split_on_append_sep [OF assms]
        split_on_no_sep [OF nq_close])
qed

lemma cy_select_id_selector:
  "dq \<notin> set h \<Longrightarrow> backslash \<notin> set h \<Longrightarrow>
     cy_select (id_selector h) cy = Some (filter (\<lambda>n. cy_id n = h) cy)"
  by (simp add: cy_select_def split_id_selector)

text \<open>
  Where the claim holds: a highlighted id without double quote and backslash that no
  rendered node has.  The effect completes and marks nothing.
\<close>

lemma highlight_effect_absent_node:
  assumes "dq \<notin> set h" and "backslash \<notin> set h" and "h \<notin> set (map cy_id cy)"
  shows "highlight_effect (Some h) cy = Some (map (removeClass ''highlighted'') cy)"
proof -
  have "filter (\<lambda>n. cy_id n = h) (map (removeClass ''highlighted'') cy) = []"
    using assms(3) by (auto simp: filter_empty_conv removeClass_def)
  then show ?thesis
    using assms(1,2) by (simp add: highlight_effect_def Let_def cy_select_id_selector)
qed

lemma terminal_select_absent_asset:
  assumes "tc_target call = Val t" and "t \<noteq> []" and "dq \<notin> set t" and "backslash \<notin> set t"
    and "t \<notin> set (map as_id (assets snap))"
  shows "map_option highlighted
           (highlight_effect (highlightedNodeId (handleTerminalSelect call st))
              (cy_of_nodes (graph_nodes snap af sf))) = Some []"
proof -
  let ?h = "''asset:'' @ t"
  have "dq \<notin> set ?h" and "backslash \<notin> set ?h"
    using assms(3,4) by (simp_all add: dq_def backslash_def)
  moreover have "?h \<notin> set (map cy_id (cy_of_nodes (graph_nodes snap af sf)))"
    using assms(5) asset_node_id_rendered [of t snap af sf] by (simp add: cy_of_nodes_ids)
  ultimately have "highlight_effect (Some ?h) (cy_of_nodes (graph_nodes snap af sf))
      = Some (map (removeClass ''highlighted'') (cy_of_nodes (graph_nodes snap af sf)))"
    by (rule highlight_effect_absent_node)
  then show ?thesis
    by (simp only: handleTerminalSelect_target [OF assms(1,2)] option.map highlighted_cleared)
qed

lemma rendered_ids_snapshotC:
  "map cy_id (cy_of_nodes (graph_nodes snapshotC ''all'' ''all''))
     = [''agent:a1'', ''asset:s1'', ''vuln:v1'']"
  by (simp add: cy_of_nodes_ids graph_nodes_def snapshotC_def agentsMap_def assetsMap_def
      vulnsMap_def new_Map_def agent_node_def asset_node_def vuln_node_def agentA1_def
      assetS1_def vulnV1_def Let_def)

text \<open>
  Claim C10 at a failing input.  The tool call has the target
  \<^verbatim>\<open>x"], node[id = "agent:a1\<close>.  Selecting its row sets the highlight to \<^verbatim>\<open>"asset:"\<close>
  followed by that target, without looking at the snapshot, as claimed.  No rendered node
  has that id; but spliced unescaped into the selector it gives the list of two id tests
  \<^verbatim>\<open>node[id = "asset:x"], node[id = "agent:a1"]\<close>, and the effect highlights the node of
  agent \<open>a1\<close>.  The target \<open>ghost\<close>, which holds no double quote, highlights nothing.
\<close>

theorem terminal_select_quoted_target_highlights_other_node:
  "tc_target callWithQuotes = Val quotedTarget
   \<and> highlightedNodeId (handleTerminalSelect callWithQuotes (initialState\<lparr>snapshot := Some snapshotC\<rparr>))
       = Some (''asset:'' @ quotedTarget)
   \<and> ''asset:'' @ quotedTarget \<notin> set (map cy_id (cy_of_nodes (graph_nodes snapshotC ''all'' ''all'')))
   \<and> id_selector (''asset:'' @ quotedTarget) = id_selector ''asset:x'' @ '', '' @ id_selector ''agent:a1''
   \<and> map_option highlighted
        (highlight_effect
           (highlightedNodeId (handleTerminalSelect callWithQuotes (initialState\<lparr>snapshot := Some snapshotC\<rparr>)))
           (cy_of_nodes (graph_nodes snapshotC ''all'' ''all''))) = Some [''agent:a1'']
   \<and> map_option highlighted
        (highlight_effect
           (highlightedNodeId (handleTerminalSelect callToGhost (initialState\<lparr>snapshot := Some snapshotC\<rparr>)))
           (cy_of_nodes (graph_nodes snapshotC ''all'' ''all''))) = Some []"
proof (intro conjI)
  show t: "tc_target callWithQuotes = Val quotedTarget"
    by (simp add: callWithQuotes_def)
  have ne: "quotedTarget \<noteq> []"
    by (simp add: quotedTarget_def)
  show h: "highlightedNodeId (handleTerminalSelect callWithQuotes (initialState\<lparr>snapshot := Some snapshotC\<rparr>))
       = Some (''asset:'' @ quotedTarget)"
    by (rule handleTerminalSelect_target [OF t ne])
  show "''asset:'' @ quotedTarget \<notin> set (map cy_id (cy_of_nodes (graph_nodes snapshotC ''all'' ''all'')))"
    by (simp add: rendered_ids_snapshotC quotedTarget_def)
  show "id_selector (''asset:'' @ quotedTarget) = id_selector ''asset:x'' @ '', '' @ id_selector ''agent:a1''"
    by (simp add: id_selector_def quotedTarget_def)
  have cy: "cy_of_nodes (graph_nodes snapshotC ''all'' ''all'')
      = [\<lparr>cy_id = ''agent:a1'', cy_classes = [''agent'']\<rparr>,
         \<lparr>cy_id = ''asset:s1'', cy_classes = [''asset'']\<rparr>,
         \<lparr>cy_id = ''vuln:v1'', cy_classes = [''vuln'']\<rparr>]"
    by (simp add: cy_of_nodes_def graph_nodes_def snapshotC_def agentsMap_def assetsMap_def
        vulnsMap_def new_Map_def agent_node_def asset_node_def vuln_node_def agentA1_def
        assetS1_def vulnV1_def Let_def shouldFadeAgent_def shouldFadeVuln_def)
  show "map_option highlighted
        (highlight_effect
           (highlightedNodeId (handleTerminalSelect callWithQuotes (initialState\<lparr>snapshot := Some snapshotC\<rparr>)))
           (cy_of_nodes (graph_nodes snapshotC ''all'' ''all''))) = Some [''agent:a1'']"
    unfolding h cy
    by (simp add: highlight_effect_def Let_def cy_select_def id_selector_def quotedTarget_def
        dq_def backslash_def removeClass_def addClass_def highlighted_def)
  have g: "tc_target callToGhost = Val ''ghost''"
    by (simp add: callToGhost_def)
  show "map_option highlighted
        (highlight_effect
           (highlightedNodeId (handleTerminalSelect callToGhost (initialState\<lparr>snapshot := Some snapshotC\<rparr>)))
           (cy_of_nodes (graph_nodes snapshotC ''all'' ''all''))) = Some []"
    by (rule terminal_select_absent_asset [OF g])
       (simp_all add: dq_def backslash_def snapshotC_def assetS1_def)
qed

end
